theory Spec2Isabelle
  imports Complex_Main "HOL-Library.Dlist" "HOL-Library.Sublist"
begin

section \<open>NexusCtrl: the relay hub (backend/app.py) and the monitoring agent (backend/agent.py)\<close>

text \<open>
  The hub keeps one process-wide \<open>MetricsConnectionManager\<close>: a dictionary from server id to
  the set of viewer sockets and a dictionary from server id to the single agent socket.
  A socket is identified by the identity of its \<open>WebSocket\<close> object, modelled as a number.
  What the hub does to a socket (accept, close, send) is recorded as a list of events.

  \<open>json.loads\<close> and \<open>json.dumps\<close> belong to the Python standard library, not to the
  repository: the endpoints take them as the parameters \<open>loads\<close> (\<open>None\<close> when
  \<open>JSONDecodeError\<close> is raised) and \<open>dumps\<close>.
\<close>

subsection \<open>Values, exceptions and events\<close>

type_synonym ws = nat
type_synonym sid = int

datatype json =
    JNull
  | JBool bool
  | JInt int
  | JFloat rat
  | JStr string
  | JArr "json list"
  | JObj "(string \<times> json) list"

datatype exn =
    WebSocketDisconnect
  | JSONDecodeError
  | AttributeError
  | TypeError
  | NoSuchProcess
  | AccessDenied
  | ZombieProcess
  | ConnectionClosed
  | OSError

text \<open>\<open>d.get(key)\<close>: the value, \<open>None\<close> for a missing key, \<open>AttributeError\<close> when
  \<open>d\<close> is not a dictionary.\<close>

fun py_get :: "json \<Rightarrow> string \<Rightarrow> exn + json" where
  "py_get (JObj kvs) k = Inr (case map_of kvs k of None \<Rightarrow> JNull | Some v \<Rightarrow> v)"
| "py_get _ k = Inl AttributeError"

text \<open>Python truthiness, as tested by \<open>if pid:\<close>.\<close>

fun truthy :: "json \<Rightarrow> bool" where
  "truthy JNull = False"
| "truthy (JBool b) = b"
| "truthy (JInt n) = (n \<noteq> 0)"
| "truthy (JFloat x) = (x \<noteq> 0)"
| "truthy (JStr s) = (s \<noteq> [])"
| "truthy (JArr xs) = (xs \<noteq> [])"
| "truthy (JObj kvs) = (kvs \<noteq> [])"

datatype send_result = Delivered | Failed

datatype event =
    Accept ws
  | Close ws nat
  | SendText ws string send_result
  | SendJson ws json send_result

fun target :: "event \<Rightarrow> ws" where
  "target (Accept w) = w"
| "target (Close w c) = w"
| "target (SendText w s r) = w"
| "target (SendJson w j r) = w"

definition outcome :: "(ws \<Rightarrow> bool) \<Rightarrow> ws \<Rightarrow> send_result" where
  "outcome fails w = (if fails w then Failed else Delivered)"

subsection \<open>Settings\<close>

record settings =
  AGENT_SECRET :: string

definition default_settings :: settings where
  "default_settings = \<lparr>AGENT_SECRET = ''nexusctrl-agent-secret''\<rparr>"

subsection \<open>MetricsConnectionManager\<close>

text \<open>A Python set is iterated in some order without repetition: a distinct list.\<close>

record manager =
  client_connections :: "sid \<rightharpoonup> ws dlist"
  agent_connections :: "sid \<rightharpoonup> ws"

definition init_manager :: manager where
  "init_manager = \<lparr>client_connections = Map.empty, agent_connections = Map.empty\<rparr>"

definition viewers :: "manager \<Rightarrow> sid \<Rightarrow> ws list" where
  "viewers st s = (case client_connections st s of None \<Rightarrow> [] | Some vs \<Rightarrow> list_of_dlist vs)"

definition connect_client :: "manager \<Rightarrow> ws \<Rightarrow> sid \<Rightarrow> manager \<times> event list" where
  "connect_client st w s =
     (let cur = (case client_connections st s of None \<Rightarrow> Dlist.empty | Some vs \<Rightarrow> vs)
      in (st\<lparr>client_connections := (client_connections st)(s \<mapsto> Dlist.insert w cur)\<rparr>,
          [Accept w]))"

definition disconnect_client :: "manager \<Rightarrow> ws \<Rightarrow> sid \<Rightarrow> manager" where
  "disconnect_client st w s =
     (case client_connections st s of
        None \<Rightarrow> st
      | Some vs \<Rightarrow>
          (let vs' = Dlist.remove w vs
           in if Dlist.null vs'
              then st\<lparr>client_connections := (client_connections st)(s := None)\<rparr>
              else st\<lparr>client_connections := (client_connections st)(s \<mapsto> vs')\<rparr>))"

definition connect_agent :: "manager \<Rightarrow> ws \<Rightarrow> sid \<Rightarrow> manager \<times> event list" where
  "connect_agent st w s =
     (st\<lparr>agent_connections := (agent_connections st)(s \<mapsto> w)\<rparr>, [Accept w])"

text \<open>\<open>self.agent_connections.pop(server_id, None)\<close>\<close>

definition disconnect_agent :: "manager \<Rightarrow> sid \<Rightarrow> manager" where
  "disconnect_agent st s = st\<lparr>agent_connections := (agent_connections st)(s := None)\<rparr>"

text \<open>\<open>fails w\<close> says whether \<open>send_json\<close> on socket \<open>w\<close> raises during this call.\<close>

definition broadcast_to_clients ::
    "(ws \<Rightarrow> bool) \<Rightarrow> manager \<Rightarrow> sid \<Rightarrow> json \<Rightarrow> manager \<times> event list" where
  "broadcast_to_clients fails st s data =
     (case client_connections st s of
        None \<Rightarrow> (st, [])
      | Some vs \<Rightarrow>
          (let dead = filter fails (list_of_dlist vs)
           in (st\<lparr>client_connections := (client_connections st)(s \<mapsto> fold Dlist.remove dead vs)\<rparr>,
               map (\<lambda>w. SendJson w data (outcome fails w)) (list_of_dlist vs))))"

subsection \<open>The agent endpoint \<open>ws_agent\<close>\<close>

datatype inbound = RecvText string | RecvDisconnect

datatype status = Continue | Exited

text \<open>Line 665: \<open>metrics_manager.agent_connections[sid] = websocket\<close>\<close>

definition admit_agent :: "manager \<Rightarrow> sid \<Rightarrow> ws \<Rightarrow> manager" where
  "admit_agent st s w = st\<lparr>agent_connections := (agent_connections st)(s \<mapsto> w)\<rparr>"

text \<open>Whether the handshake passes the check of line 663; every exception raised while
  reading or decoding it is caught by \<open>except Exception\<close> and rejects as well.\<close>

definition handshake_ok :: "(string \<Rightarrow> json option) \<Rightarrow> settings \<Rightarrow> inbound \<Rightarrow> bool" where
  "handshake_ok loads cfg first =
     (case first of
        RecvDisconnect \<Rightarrow> False
      | RecvText txt \<Rightarrow>
          (case loads txt of
             None \<Rightarrow> False
           | Some v \<Rightarrow>
               (case py_get v ''secret'' of
                  Inl e \<Rightarrow> False
                | Inr sec \<Rightarrow> \<not> (sec \<noteq> JStr (AGENT_SECRET cfg)))))"

definition ws_agent_handshake ::
    "(string \<Rightarrow> json option) \<Rightarrow> settings \<Rightarrow> manager \<Rightarrow> ws \<Rightarrow> sid \<Rightarrow> inbound
       \<Rightarrow> manager \<times> event list \<times> status" where
  "ws_agent_handshake loads cfg st w s first =
     (if handshake_ok loads cfg first
      then (admit_agent st s w, [Accept w], Continue)
      else (st, [Accept w, Close w 4001], Exited))"

text \<open>One turn of the loop of lines 667-671, with its \<open>finally\<close>.\<close>

definition ws_agent_recv ::
    "(string \<Rightarrow> json option) \<Rightarrow> (ws \<Rightarrow> bool) \<Rightarrow> manager \<Rightarrow> sid \<Rightarrow> inbound
       \<Rightarrow> manager \<times> event list \<times> status" where
  "ws_agent_recv loads fails st s msg =
     (case msg of
        RecvDisconnect \<Rightarrow> (disconnect_agent st s, [], Exited)
      | RecvText data \<Rightarrow>
          (if data = [] then (st, [], Continue)
           else (case loads data of
                   None \<Rightarrow> (disconnect_agent st s, [], Exited)
                 | Some j \<Rightarrow>
                     (let (st', evs) = broadcast_to_clients fails st s j
                      in (st', evs, Continue)))))"

subsection \<open>The viewer endpoint \<open>ws_metrics\<close>\<close>

text \<open>Lines 653-655 for one received text: the events and the exception raised, if any.\<close>

definition relay_to_agent ::
    "(string \<Rightarrow> json option) \<Rightarrow> (json \<Rightarrow> string) \<Rightarrow> (ws \<Rightarrow> bool) \<Rightarrow> manager \<Rightarrow> sid \<Rightarrow> string
       \<Rightarrow> event list \<times> exn option" where
  "relay_to_agent loads dumps fails st s data =
     (if data = [] then ([], None)
      else (case loads data of
              None \<Rightarrow> ([], Some JSONDecodeError)
            | Some msg \<Rightarrow>
                (case agent_connections st s of
                   None \<Rightarrow> ([], None)
                 | Some a \<Rightarrow>
                     ([SendText a (dumps msg) (outcome fails a)],
                      if fails a then Some WebSocketDisconnect else None))))"

text \<open>One turn of the loop of lines 651-657: any exception leaves the loop, and the
  \<open>finally\<close> removes the viewer.\<close>

definition ws_metrics_recv ::
    "(string \<Rightarrow> json option) \<Rightarrow> (json \<Rightarrow> string) \<Rightarrow> (ws \<Rightarrow> bool) \<Rightarrow> manager \<Rightarrow> ws \<Rightarrow> sid
       \<Rightarrow> inbound \<Rightarrow> manager \<times> event list \<times> status" where
  "ws_metrics_recv loads dumps fails st w s msg =
     (case msg of
        RecvDisconnect \<Rightarrow> (disconnect_client st w s, [], Exited)
      | RecvText data \<Rightarrow>
          (case relay_to_agent loads dumps fails st s data of
             (evs, None) \<Rightarrow> (st, evs, Continue)
           | (evs, Some e) \<Rightarrow> (disconnect_client st w s, evs, Exited)))"

text \<open>A run of registry operations on one server id.\<close>

datatype hub_op = Broadcast json "ws \<Rightarrow> bool" | Relay string "ws \<Rightarrow> bool"

fun run_ops ::
    "(string \<Rightarrow> json option) \<Rightarrow> (json \<Rightarrow> string) \<Rightarrow> manager \<Rightarrow> sid \<Rightarrow> hub_op list
       \<Rightarrow> manager \<times> event list" where
  "run_ops loads dumps st s [] = (st, [])"
| "run_ops loads dumps st s (Broadcast data fails # ops) =
     (let (st', evs) = broadcast_to_clients fails st s data;
          (st'', evs') = run_ops loads dumps st' s ops
      in (st'', evs @ evs'))"
| "run_ops loads dumps st s (Relay data fails # ops) =
     (let evs = fst (relay_to_agent loads dumps fails st s data);
          (st'', evs') = run_ops loads dumps st s ops
      in (st'', evs @ evs'))"

section \<open>The monitoring agent\<close>

text \<open>
  What \<open>psutil\<close>, the screen grabber and the clock return is given by the environment of
  one tick: each read either raises or yields its value. Floating-point numbers are
  modelled as rationals.
\<close>

subsection \<open>Rounding, sorting and string tests of Python\<close>

definition round_half_even :: "rat \<Rightarrow> int" where
  "round_half_even y =
     (let f = \<lfloor>y\<rfloor>; d = y - of_int f
      in if d < 1 / 2 then f else if 1 / 2 < d then f + 1 else if even f then f else f + 1)"

definition py_round :: "rat \<Rightarrow> nat \<Rightarrow> rat" where
  "py_round x ndigits = of_int (round_half_even (x * 10 ^ ndigits)) / 10 ^ ndigits"

text \<open>\<open>sorted(xs, key=key, reverse=True)\<close>: descending and stable.\<close>

definition py_sorted_desc :: "('a \<Rightarrow> 'k::linorder) \<Rightarrow> 'a list \<Rightarrow> 'a list" where
  "py_sorted_desc key xs = rev (sort_key key (rev xs))"

text \<open>\<open>str.lower\<close> on ASCII letters, and the substring test \<open>needle in s\<close>.\<close>

definition lower_char :: "char \<Rightarrow> char" where
  "lower_char c =
     (let n = (of_char c :: nat) in if 65 \<le> n \<and> n \<le> 90 then char_of (n + 32) else c)"

definition lower :: "string \<Rightarrow> string" where
  "lower s = map lower_char s"

fun py_in :: "string \<Rightarrow> string \<Rightarrow> bool" where
  "py_in needle [] = (needle = [])"
| "py_in needle (c # cs) = (prefix needle (c # cs) \<or> py_in needle cs)"

subsection \<open>The sampler\<close>

text \<open>
  \<open>psutil.process_iter(attrs)\<close> fills \<open>proc.info\<close> before the body of the loop runs: a
  process that has vanished is not yielded, and an attribute that the operating system
  denies (or that belongs to a zombie) is \<open>None\<close>. Reading \<open>proc.info\<close> raises nothing.
\<close>

record pinfo =
  pinfo_pid :: int
  pinfo_name :: "string option"
  pinfo_username :: "string option"
  pinfo_cpu_percent :: "rat option"
  pinfo_memory_percent :: "rat option"

record proc_entry =
  proc_pid :: int
  proc_name :: "string option"
  proc_user :: "string option"
  proc_cpu :: rat
  proc_ram :: rat

record ss_result =
  ss_data :: "string option"
  ss_status :: string
  ss_error :: "string option"

record sys_env =
  cpu_percent :: "exn + rat"
  virtual_memory_percent :: "exn + rat"
  net_io_counters :: "exn + int \<times> int"
  process_iter :: "pinfo list"
  grab_jpeg_base64 :: "string + string"
  now_hms :: string
  now_iso :: string

text \<open>
  \<open>net_io_counters\<close> yields \<open>(bytes_recv, bytes_sent)\<close>; \<open>process_iter\<close> lists the infos
  of the enumerated processes; \<open>grab_jpeg_base64\<close> is the base64 text of the encoded
  screen, or \<open>str(e)\<close> of the exception raised while grabbing.
\<close>

record metrics =
  m_time :: string
  m_cpu :: rat
  m_ram :: rat
  m_net_rx :: rat
  m_net_tx :: rat
  m_processes :: "proc_entry list"
  m_status :: string
  m_timestamp :: string
  m_screenshot :: "ss_result option"

text \<open>\<open>round(x, ndigits)\<close> on a value that may be \<open>None\<close>, which has no \<open>__round__\<close>.\<close>

definition py_round_opt :: "rat option \<Rightarrow> nat \<Rightarrow> exn + rat" where
  "py_round_opt x ndigits =
     (case x of None \<Rightarrow> Inl TypeError | Some y \<Rightarrow> Inr (py_round y ndigits))"

text \<open>The body of the \<open>try\<close>: the dictionary built from one info, or the exception raised.\<close>

definition entry :: "pinfo \<Rightarrow> exn + proc_entry" where
  "entry i =
     (case py_round_opt (pinfo_cpu_percent i) 1 of
        Inl e \<Rightarrow> Inl e
      | Inr c \<Rightarrow>
          (case py_round_opt (pinfo_memory_percent i) 1 of
             Inl e \<Rightarrow> Inl e
           | Inr r \<Rightarrow>
               Inr \<lparr>proc_pid = pinfo_pid i, proc_name = pinfo_name i,
                    proc_user = pinfo_username i, proc_cpu = c, proc_ram = r\<rparr>))"

definition caught :: "exn \<Rightarrow> bool" where
  "caught e = (e = NoSuchProcess \<or> e = AccessDenied \<or> e = ZombieProcess)"

fun process_loop :: "pinfo list \<Rightarrow> proc_entry list \<Rightarrow> exn + proc_entry list" where
  "process_loop [] procs = Inr procs"
| "process_loop (i # rest) procs =
     (case entry i of
        Inr e \<Rightarrow> process_loop rest (procs @ [e])
      | Inl x \<Rightarrow> (if caught x then process_loop rest procs else Inl x))"

definition get_processes :: "pinfo list \<Rightarrow> exn + proc_entry list" where
  "get_processes infos =
     (case process_loop infos [] of
        Inl e \<Rightarrow> Inl e
      | Inr procs \<Rightarrow> Inr (take 20 (py_sorted_desc proc_cpu procs)))"

definition capture_screen :: "sys_env \<Rightarrow> ss_result" where
  "capture_screen env =
     (case grab_jpeg_base64 env of
        Inr img_str \<Rightarrow>
          \<lparr>ss_data = Some (''data:image/jpeg;base64,'' @ img_str), ss_status = ''ok'',
           ss_error = None\<rparr>
      | Inl e \<Rightarrow>
          (let emsg = lower e
           in if py_in ''screen grab failed'' emsg \<or> py_in ''handle'' emsg
              then \<lparr>ss_data = None, ss_status = ''locked'',
                    ss_error = Some ''RDP Session Disconnected (Desktop Locked)''\<rparr>
              else \<lparr>ss_data = None, ss_status = ''error'', ss_error = Some e\<rparr>))"

definition collect_metrics :: "sys_env \<Rightarrow> bool \<Rightarrow> exn + metrics" where
  "collect_metrics env include_screenshot =
     (case cpu_percent env of
        Inl e \<Rightarrow> Inl e
      | Inr cpu \<Rightarrow>
     (case virtual_memory_percent env of
        Inl e \<Rightarrow> Inl e
      | Inr ram \<Rightarrow>
     (case net_io_counters env of
        Inl e \<Rightarrow> Inl e
      | Inr (bytes_recv, bytes_sent) \<Rightarrow>
     (case get_processes (process_iter env) of
        Inl e \<Rightarrow> Inl e
      | Inr processes \<Rightarrow>
          Inr \<lparr>m_time = now_hms env, m_cpu = cpu, m_ram = ram,
               m_net_rx = py_round (of_int bytes_recv / 1024 / 1024) 2,
               m_net_tx = py_round (of_int bytes_sent / 1024 / 1024) 2,
               m_processes = processes, m_status = ''online'', m_timestamp = now_iso env,
               m_screenshot =
                 (if include_screenshot then Some (capture_screen env) else None)\<rparr>))))"

subsection \<open>The publish loop of \<open>run_agent\<close>\<close>

text \<open>
  The loop has no exit of its own: it is run on the list of the ticks that happen, each with
  its environment and whether \<open>websocket.send\<close> succeeds. It returns the snapshots sent and
  either the counter reached or the exception that ended it.
\<close>

record tick =
  sys :: sys_env
  send_ok :: bool

datatype loop_state = Running nat | Raised exn

definition take_ss :: "nat \<Rightarrow> bool" where
  "take_ss counter = (counter mod 5 = 0)"

fun publish_loop :: "tick list \<Rightarrow> nat \<Rightarrow> metrics list \<times> loop_state" where
  "publish_loop [] counter = ([], Running counter)"
| "publish_loop (t # ts) counter =
     (case collect_metrics (sys t) (take_ss counter) of
        Inl e \<Rightarrow> ([], Raised e)
      | Inr m \<Rightarrow>
          (if send_ok t
           then (let (out, st) = publish_loop ts (counter + 1) in (m # out, st))
           else ([], Raised ConnectionClosed)))"

subsection \<open>The command executor \<open>handle_commands\<close>\<close>

text \<open>
  \<open>psutil.Process(pid)\<close> and \<open>p.terminate()\<close> act on an operating system \<open>'os\<close>: the first
  yields a handle (named by its pid) or raises, the second yields the system afterwards
  or raises. Every call made and every line printed is an event.
\<close>

record 'os psutil_api =
  Process :: "'os \<Rightarrow> json \<Rightarrow> exn + int"
  terminate :: "'os \<Rightarrow> int \<Rightarrow> exn + 'os"

datatype agent_event =
    PrintKill json
  | CallProcess json
  | CallTerminate int
  | PrintTerminated json
  | PrintFailed exn

definition handle_command ::
    "(string \<Rightarrow> json option) \<Rightarrow> 'os psutil_api \<Rightarrow> 'os \<Rightarrow> string \<Rightarrow> 'os \<times> agent_event list" where
  "handle_command loads api os message =
     (case loads message of
        None \<Rightarrow> (os, [PrintFailed JSONDecodeError])
      | Some command \<Rightarrow>
          (case py_get command ''action'' of
             Inl e \<Rightarrow> (os, [PrintFailed e])
           | Inr action \<Rightarrow>
               (if action = JStr ''kill''
                then (case py_get command ''pid'' of
                        Inl e \<Rightarrow> (os, [PrintFailed e])
                      | Inr pid \<Rightarrow>
                          (if truthy pid
                           then (case Process api os pid of
                                   Inl e \<Rightarrow> (os, [PrintKill pid, CallProcess pid, PrintFailed e])
                                 | Inr p \<Rightarrow>
                                     (case terminate api os p of
                                        Inl e \<Rightarrow>
                                          (os, [PrintKill pid, CallProcess pid, CallTerminate p,
                                                PrintFailed e])
                                      | Inr os' \<Rightarrow>
                                          (os', [PrintKill pid, CallProcess pid, CallTerminate p,
                                                 PrintTerminated pid])))
                           else (os, [])))
                else (os, []))))"

fun handle_commands ::
    "(string \<Rightarrow> json option) \<Rightarrow> 'os psutil_api \<Rightarrow> 'os \<Rightarrow> string list \<Rightarrow> 'os \<times> agent_event list" where
  "handle_commands loads api os [] = (os, [])"
| "handle_commands loads api os (message # rest) =
     (let (os', evs) = handle_command loads api os message;
          (os'', evs') = handle_commands loads api os' rest
      in (os'', evs @ evs'))"

definition attempts_kill :: "agent_event \<Rightarrow> bool" where
  "attempts_kill ev = (case ev of CallProcess p \<Rightarrow> True | CallTerminate p \<Rightarrow> True | _ \<Rightarrow> False)"

subsection \<open>Observations on snapshots and enumerations\<close>

text \<open>An info whose cpu and memory percent are present; the entries of such infos.\<close>

definition reports_usage :: "pinfo \<Rightarrow> bool" where
  "reports_usage i = (pinfo_cpu_percent i \<noteq> None \<and> pinfo_memory_percent i \<noteq> None)"

fun entries :: "pinfo list \<Rightarrow> proc_entry list" where
  "entries [] = []"
| "entries (i # rest) = (case entry i of Inr e \<Rightarrow> e # entries rest | Inl x \<Rightarrow> entries rest)"

text \<open>
  The text that a socket receives for each event delivered to it: \<open>send_text\<close> sends
  its text, \<open>send_json\<close> sends the serialisation \<open>encode\<close> of its value (Starlette's
  \<open>json.dumps(data, separators=(",", ":"), ensure_ascii=False)\<close>).
\<close>

fun received :: "(json \<Rightarrow> string) \<Rightarrow> ws \<Rightarrow> event list \<Rightarrow> string list" where
  "received encode w [] = []"
| "received encode w (SendJson v j Delivered # evs) =
     (if v = w then encode j # received encode w evs else received encode w evs)"
| "received encode w (SendText v txt Delivered # evs) =
     (if v = w then txt # received encode w evs else received encode w evs)"
| "received encode w (ev # evs) = received encode w evs"

text \<open>A snapshot carries the screenshot keys; its \<open>screenshot\<close> value is not null.\<close>

definition has_screenshot_keys :: "metrics \<Rightarrow> bool" where
  "has_screenshot_keys m = (m_screenshot m \<noteq> None)"

definition has_image :: "metrics \<Rightarrow> bool" where
  "has_image m = (case m_screenshot m of None \<Rightarrow> False | Some r \<Rightarrow> ss_data r \<noteq> None)"

definition grab_succeeds :: "sys_env \<Rightarrow> bool" where
  "grab_succeeds env = (case grab_jpeg_base64 env of Inl e \<Rightarrow> False | Inr img \<Rightarrow> True)"

text \<open>A tick on which sampling returns and the snapshot is sent.\<close>

definition tick_completes :: "tick \<Rightarrow> bool" where
  "tick_completes t =
     (case collect_metrics (sys t) False of Inl e \<Rightarrow> False | Inr m \<Rightarrow> send_ok t)"

section \<open>Example data\<close>

text \<open>
  The value of \<open>json.loads\<close> on the texts used below (a text that is not listed is used
  only where it is not JSON), of \<open>json.dumps\<close> on the one value that is relayed, and of
  the serialisation of \<open>send_json\<close> on the one value that is broadcast.
\<close>

definition loads_ex :: "string \<Rightarrow> json option" where
  \<open>loads_ex = map_of
     [(''{"secret":"bad"}'', JObj [(''secret'', JStr ''bad'')]),
      (''{"secret":"dev-secret-key-change-me"}'',
         JObj [(''secret'', JStr ''dev-secret-key-change-me'')]),
      (''{"cpu":12.3}'', JObj [(''cpu'', JFloat (123 / 10))]),
      (''{"action":"kill","pid":4242}'', JObj [(''action'', JStr ''kill''), (''pid'', JInt 4242)]),
      (''{"action":"kill","pid":0}'', JObj [(''action'', JStr ''kill''), (''pid'', JInt 0)]),
      (''{"cpu": 12.3}'', JObj [(''cpu'', JFloat (123 / 10))])]\<close>

definition dumps_ex :: "json \<Rightarrow> string" where
  \<open>dumps_ex j =
     (if j = JObj [(''action'', JStr ''kill''), (''pid'', JInt 4242)]
      then ''{"action": "kill", "pid": 4242}'' else [])\<close>

definition send_json_ex :: "json \<Rightarrow> string" where
  \<open>send_json_ex j = (if j = JObj [(''cpu'', JFloat (123 / 10))] then ''{"cpu":12.3}'' else [])\<close>

definition never_fails :: "ws \<Rightarrow> bool" where
  "never_fails w = False"

definition only_fails :: "ws \<Rightarrow> ws \<Rightarrow> bool" where
  "only_fails bad w = (w = bad)"

text \<open>Server 1 with the viewers 3 and 4.\<close>

definition two_viewers :: manager where
  "two_viewers = fst (connect_client (fst (connect_client init_manager 3 1)) 4 1)"

text \<open>Server 1 with the viewer 3.\<close>

definition one_viewer :: manager where
  "one_viewer = fst (connect_client init_manager 3 1)"

definition dev_settings :: settings where
  "dev_settings = \<lparr>AGENT_SECRET = ''dev-secret-key-change-me''\<rparr>"

definition busy :: pinfo where
  "busy = \<lparr>pinfo_pid = 7, pinfo_name = Some ''busy'', pinfo_username = Some ''root'',
           pinfo_cpu_percent = Some 9, pinfo_memory_percent = Some 2\<rparr>"

definition idle :: pinfo where
  "idle = \<lparr>pinfo_pid = 8, pinfo_name = Some ''idle'', pinfo_username = Some ''root'',
           pinfo_cpu_percent = Some 1, pinfo_memory_percent = Some 3\<rparr>"

text \<open>A process whose cpu and memory percent the operating system denies.\<close>

definition denied :: pinfo where
  "denied = \<lparr>pinfo_pid = 4, pinfo_name = Some ''System'', pinfo_username = None,
             pinfo_cpu_percent = None, pinfo_memory_percent = None\<rparr>"

text \<open>A host whose screen is locked.\<close>

definition locked_env :: sys_env where
  "locked_env =
     \<lparr>cpu_percent = Inr 12, virtual_memory_percent = Inr 40, net_io_counters = Inr (2097152, 1048576),
      process_iter = [idle, busy],
      grab_jpeg_base64 = Inl ''screen grab failed'', now_hms = ''10:00:00'',
      now_iso = ''2024-01-01T10:00:00''\<rparr>"

definition cpu_fails_env :: sys_env where
  "cpu_fails_env = locked_env\<lparr>cpu_percent := Inl OSError\<rparr>"

definition locked_tick :: tick where
  "locked_tick = \<lparr>sys = locked_env, send_ok = True\<rparr>"

text \<open>The same host with a screen that can be grabbed.\<close>

definition unlocked_tick :: tick where
  "unlocked_tick = \<lparr>sys = locked_env\<lparr>grab_jpeg_base64 := Inr ''AAAA''\<rparr>, send_ok = True\<rparr>"

text \<open>An operating system given by the pids alive.\<close>

definition pids_api :: "int list psutil_api" where
  "pids_api =
     \<lparr>Process = (\<lambda>os pid. case pid of
                     JInt n \<Rightarrow> if n \<in> set os then Inr n else Inl NoSuchProcess
                   | _ \<Rightarrow> Inl TypeError),
      terminate = (\<lambda>os p. Inr (removeAll p os))\<rparr>"

section \<open>Properties of the hub\<close>

subsection \<open>Broadcast, viewer sets and events\<close>

lemma distinct_viewers: "distinct (viewers st s)"
  by (simp add: viewers_def split: option.split)

lemma filter_neq_absent: "d \<notin> set xs \<Longrightarrow> filter (\<lambda>w. w \<noteq> d) xs = xs"
  by (induction xs) auto

lemma remove1_distinct_filter: "distinct xs \<Longrightarrow> remove1 d xs = filter (\<lambda>w. w \<noteq> d) xs"
  by (induction xs) (auto simp: filter_neq_absent)

lemma list_of_dlist_fold_remove:
  "list_of_dlist (fold Dlist.remove ds vs) = filter (\<lambda>w. w \<notin> set ds) (list_of_dlist vs)"
proof (induction ds arbitrary: vs)
  case Nil
  then show ?case by simp
next
  case (Cons d ds)
  have "list_of_dlist (fold Dlist.remove ds (Dlist.remove d vs))
        = filter (\<lambda>w. w \<notin> set ds) (filter (\<lambda>w. w \<noteq> d) (list_of_dlist vs))"
    by (simp add: Cons.IH remove1_distinct_filter)
  also have "\<dots> = filter (\<lambda>w. w \<notin> set (d # ds)) (list_of_dlist vs)"
    by (induction "list_of_dlist vs") auto
  finally show ?case by simp
qed

lemma filter_member_imp:
  "filter (\<lambda>w. w \<in> set xs \<longrightarrow> P w) xs = filter P xs"
  by (rule filter_cong) auto

lemma viewers_broadcast:
  "viewers (fst (broadcast_to_clients fails st s data)) s = filter (\<lambda>w. \<not> fails w) (viewers st s)"
  by (simp add: broadcast_to_clients_def viewers_def list_of_dlist_fold_remove filter_member_imp
      split: option.split)

lemma agent_broadcast:
  "agent_connections (fst (broadcast_to_clients fails st s data)) = agent_connections st"
  by (simp add: broadcast_to_clients_def split: option.split)

lemma events_broadcast:
  "snd (broadcast_to_clients fails st s data) =
     map (\<lambda>w. SendJson w data (outcome fails w)) (viewers st s)"
  by (simp add: broadcast_to_clients_def viewers_def split: option.split)

lemma broadcast_no_dead:
  assumes "\<forall>w \<in> set (viewers st s). \<not> fails w"
  shows "broadcast_to_clients fails st s data =
           (st, map (\<lambda>w. SendJson w data Delivered) (viewers st s))"
proof (cases "client_connections st s")
  case None
  then show ?thesis by (simp add: broadcast_to_clients_def viewers_def)
next
  case (Some vs)
  from assms Some have nf: "\<forall>w \<in> set (list_of_dlist vs). \<not> fails w"
    by (simp add: viewers_def)
  then have dead: "filter fails (list_of_dlist vs) = []"
    by (simp add: filter_empty_conv)
  have "(client_connections st)(s \<mapsto> vs) = client_connections st"
    using Some by (simp add: map_upd_triv)
  moreover have "map (\<lambda>w. SendJson w data (outcome fails w)) (list_of_dlist vs)
                 = map (\<lambda>w. SendJson w data Delivered) (list_of_dlist vs)"
    using nf by (simp add: outcome_def)
  ultimately show ?thesis
    using Some dead by (simp add: broadcast_to_clients_def viewers_def)
qed

lemma distinct_count_one:
  "x \<in> set xs \<Longrightarrow> distinct xs \<Longrightarrow> length (filter (\<lambda>w. w = x) xs) = 1"
  by (induction xs) (auto simp: filter_empty_conv)

subsection \<open>Removing an agent\<close>

text \<open>
  C1 (as the code has it). \<open>disconnect_agent\<close> names no socket: it is idempotent and removes
  the agent of the server id whichever socket is registered, also the one admitted last;
  the agents of other server ids and all viewer sets stay as they are. The \<open>finally\<close> of
  \<open>ws_agent\<close> calls it when the socket of the session disconnects.
\<close>

theorem disconnect_agent_removes_any_agent:
  "disconnect_agent (disconnect_agent st s) s = disconnect_agent st s
   \<and> agent_connections (disconnect_agent (admit_agent (admit_agent st s t1) s t2) s) s = None
   \<and> agent_connections (disconnect_agent st s) = (agent_connections st)(s := None)
   \<and> client_connections (disconnect_agent st s) = client_connections st
   \<and> fst (ws_agent_recv loads fails st s RecvDisconnect) = disconnect_agent st s"
  by (simp add: disconnect_agent_def admit_agent_def ws_agent_recv_def)

text \<open>
  C1 (as the specification states it) fails: socket 20 has superseded socket 10 for server 1,
  and the disconnect of the stale session leaves server 1 without its agent 20.
\<close>

theorem stale_disconnect_evicts_newer_agent:
  "agent_connections (admit_agent (admit_agent init_manager 1 10) 1 20) 1 = Some 20
   \<and> agent_connections
        (fst (ws_agent_recv loads_ex never_fails (admit_agent (admit_agent init_manager 1 10) 1 20) 1
                RecvDisconnect)) 1 \<noteq> Some 20"
  by (simp add: ws_agent_recv_def disconnect_agent_def admit_agent_def init_manager_def)

subsection \<open>Broadcast with a failing viewer\<close>

text \<open>
  C5. One call of \<open>broadcast_to_clients\<close> on a server id that has a viewer whose send fails
  and a viewer whose send succeeds delivers the payload to the succeeding viewer, keeps that
  viewer, removes the failing viewer, and makes exactly one send attempt to the failing
  viewer; on a server id without viewers the call changes nothing and sends nothing.
\<close>

theorem broadcast_skips_failing_viewer:
  assumes "bad \<in> set (viewers st s)" and "good \<in> set (viewers st s)"
    and "fails bad" and "\<not> fails good"
  shows "SendJson good payload Delivered \<in> set (snd (broadcast_to_clients fails st s payload))
       \<and> good \<in> set (viewers (fst (broadcast_to_clients fails st s payload)) s)
       \<and> bad \<notin> set (viewers (fst (broadcast_to_clients fails st s payload)) s)
       \<and> length (filter (\<lambda>ev. target ev = bad) (snd (broadcast_to_clients fails st s payload))) = 1
       \<and> (viewers st0 s0 = [] \<longrightarrow> broadcast_to_clients fails0 st0 s0 payload = (st0, []))"
proof -
  have sent: "SendJson good payload Delivered \<in> set (snd (broadcast_to_clients fails st s payload))"
    using assms(2,4) by (auto simp: events_broadcast outcome_def)
  have kept: "good \<in> set (viewers (fst (broadcast_to_clients fails st s payload)) s)"
    using assms(2,4) by (simp add: viewers_broadcast)
  have gone: "bad \<notin> set (viewers (fst (broadcast_to_clients fails st s payload)) s)"
    using assms(3) by (simp add: viewers_broadcast)
  have "filter (\<lambda>ev. target ev = bad) (snd (broadcast_to_clients fails st s payload))
        = map (\<lambda>w. SendJson w payload (outcome fails w)) (filter (\<lambda>w. w = bad) (viewers st s))"
    by (simp add: events_broadcast filter_map comp_def)
  moreover have "length (filter (\<lambda>w. w = bad) (viewers st s)) = 1"
    using assms(1) distinct_viewers [of st s]
    by (rule distinct_count_one)
  ultimately have once:
    "length (filter (\<lambda>ev. target ev = bad) (snd (broadcast_to_clients fails st s payload))) = 1"
    by simp
  have noop: "viewers st0 s0 = [] \<longrightarrow> broadcast_to_clients fails0 st0 s0 payload = (st0, [])"
    using broadcast_no_dead [of st0 s0 fails0 payload] by auto
  from sent kept gone once noop show ?thesis by blast
qed


text \<open>Server 1 with the viewers 3 (failing) and 4, and the empty registry.\<close>

theorem broadcast_skips_failing_viewer_witness:
  "3 \<in> set (viewers two_viewers 1) \<and> 4 \<in> set (viewers two_viewers 1)
   \<and> only_fails 3 3 \<and> \<not> only_fails 3 4
   \<and> SendJson 4 (JInt 7) Delivered
        \<in> set (snd (broadcast_to_clients (only_fails 3) two_viewers 1 (JInt 7)))
   \<and> viewers (fst (broadcast_to_clients (only_fails 3) two_viewers 1 (JInt 7))) 1 = [4]
   \<and> length (filter (\<lambda>ev. target ev = 3)
         (snd (broadcast_to_clients (only_fails 3) two_viewers 1 (JInt 7)))) = 1
   \<and> viewers init_manager 1 = []
   \<and> broadcast_to_clients never_fails init_manager 1 (JInt 7) = (init_manager, [])"
proof -
  have v: "viewers two_viewers 1 = [4, 3]"
    by (simp add: two_viewers_def viewers_def connect_client_def init_manager_def)
  have h1: "3 \<in> set (viewers two_viewers 1)" and h2: "4 \<in> set (viewers two_viewers 1)"
    by (simp_all add: v)
  have h3: "only_fails 3 3" and h4: "\<not> only_fails 3 4"
    by (simp_all add: only_fails_def)
  have e: "viewers init_manager 1 = []"
    by (simp add: viewers_def init_manager_def)
  have k: "viewers (fst (broadcast_to_clients (only_fails 3) two_viewers 1 (JInt 7))) 1 = [4]"
    by (simp add: viewers_broadcast v only_fails_def)
  show ?thesis
    using broadcast_skips_failing_viewer [OF h1 h2 h3 h4, of "JInt 7" init_manager 1 never_fails]
      h1 h2 h3 h4 e k
    by simp
qed

subsection \<open>A second agent supersedes the first\<close>

lemma viewers_admit_agent: "viewers (admit_agent st s w) s' = viewers st s'"
  by (simp add: viewers_def admit_agent_def)

lemma relay_targets:
  "ev \<in> set (fst (relay_to_agent loads dumps fails st s data))
     \<Longrightarrow> agent_connections st s = Some (target ev)"
  by (auto simp: relay_to_agent_def split: if_splits option.splits)

lemma run_ops_agent:
  "agent_connections (fst (run_ops loads dumps st s ops)) = agent_connections st"
proof (induction ops arbitrary: st)
  case Nil
  then show ?case by simp
next
  case (Cons op ops)
  show ?case
  proof (cases op)
    case (Broadcast data fails)
    then show ?thesis
      using Cons.IH [of "fst (broadcast_to_clients fails st s data)"]
      by (simp add: case_prod_beta agent_broadcast)
  next
    case (Relay data fails)
    then show ?thesis using Cons.IH [of st] by (simp add: case_prod_beta)
  qed
qed

lemma run_ops_targets:
  "ev \<in> set (snd (run_ops loads dumps st s ops))
     \<Longrightarrow> agent_connections st s = Some (target ev) \<or> target ev \<in> set (viewers st s)"
proof (induction ops arbitrary: st)
  case Nil
  then show ?case by simp
next
  case (Cons op ops)
  show ?case
  proof (cases op)
    case (Broadcast data fails)
    let ?st' = "fst (broadcast_to_clients fails st s data)"
    from Cons.prems Broadcast
    consider "ev \<in> set (snd (broadcast_to_clients fails st s data))"
      | "ev \<in> set (snd (run_ops loads dumps ?st' s ops))"
      by (auto simp: case_prod_beta)
    then show ?thesis
    proof cases
      case 1
      then show ?thesis by (auto simp: events_broadcast)
    next
      case 2
      from Cons.IH [OF 2] show ?thesis
        by (auto simp: agent_broadcast viewers_broadcast)
    qed
  next
    case (Relay data fails)
    from Cons.prems Relay
    consider "ev \<in> set (fst (relay_to_agent loads dumps fails st s data))"
      | "ev \<in> set (snd (run_ops loads dumps st s ops))"
      by (auto simp: case_prod_beta)
    then show ?thesis
    proof cases
      case 1
      then show ?thesis by (simp add: relay_targets)
    next
      case 2
      from Cons.IH [OF 2] show ?thesis .
    qed
  qed
qed

text \<open>
  C4. After socket \<open>t1\<close> and then socket \<open>t2\<close> are admitted as agent of a server id, the
  registry holds exactly \<open>t2\<close> for it, and no later broadcast or relay for that server id
  sends anything to \<open>t1\<close> (two sockets are distinct objects, and an agent socket is not a
  viewer socket).
\<close>

theorem second_agent_supersedes_first:
  assumes "t1 \<noteq> t2" and "t1 \<notin> set (viewers st s)"
  shows "agent_connections (admit_agent (admit_agent st s t1) s t2) s = Some t2
       \<and> agent_connections (fst (connect_agent (fst (connect_agent st t1 s)) t2 s)) s = Some t2
       \<and> (\<forall>ev \<in> set (snd (run_ops loads dumps (admit_agent (admit_agent st s t1) s t2) s ops)).
             target ev \<noteq> t1)
       \<and> agent_connections
            (fst (run_ops loads dumps (admit_agent (admit_agent st s t1) s t2) s ops)) s = Some t2"
proof -
  let ?st = "admit_agent (admit_agent st s t1) s t2"
  have a: "agent_connections ?st s = Some t2"
    by (simp add: admit_agent_def)
  have c: "agent_connections (fst (connect_agent (fst (connect_agent st t1 s)) t2 s)) s = Some t2"
    by (simp add: connect_agent_def)
  have v: "viewers ?st s = viewers st s"
    by (simp add: viewers_admit_agent)
  have "target ev \<noteq> t1" if "ev \<in> set (snd (run_ops loads dumps ?st s ops))" for ev
    using run_ops_targets [OF that] a v assms by auto
  moreover have "agent_connections (fst (run_ops loads dumps ?st s ops)) s = Some t2"
    by (simp add: run_ops_agent a)
  ultimately show ?thesis using a c by blast
qed

text \<open>Agents 10 and then 20 on server 1, followed by a broadcast and a relay.\<close>

theorem second_agent_supersedes_first_witness:
  \<open>(10::nat) \<noteq> 20 \<and> 10 \<notin> set (viewers two_viewers 1)
   \<and> agent_connections (admit_agent (admit_agent two_viewers 1 10) 1 20) 1 = Some 20
   \<and> list_all (\<lambda>ev. target ev \<noteq> 10)
        (snd (run_ops loads_ex dumps_ex (admit_agent (admit_agent two_viewers 1 10) 1 20) 1
           [Broadcast (JInt 7) (only_fails 3), Relay ''{"action":"kill","pid":4242}'' never_fails]))\<close>
proof -
  have v: "viewers two_viewers 1 = [4, 3]"
    by (simp add: two_viewers_def viewers_def connect_client_def init_manager_def)
  have h1: "(10::nat) \<noteq> 20" by simp
  have h2: "10 \<notin> set (viewers two_viewers 1)" by (simp add: v)
  show ?thesis
    using second_agent_supersedes_first [OF h1 h2, of loads_ex dumps_ex
        \<open>[Broadcast (JInt 7) (only_fails 3), Relay ''{"action":"kill","pid":4242}'' never_fails]\<close>]
      h2
    by (simp add: list_all_iff)
qed


subsection \<open>The handshake\<close>

text \<open>
  C7. A first message that does not decode, that decodes to something other than an object,
  or whose \<open>secret\<close> differs from the configured one makes the hub close the socket with
  code 4001; the registry is unchanged, so no agent is registered by this session.
\<close>

theorem bad_handshake_rejected:
  assumes "loads txt = None
         \<or> (\<exists>v. loads txt = Some v \<and> py_get v ''secret'' = Inl AttributeError)
         \<or> (\<exists>v sec. loads txt = Some v \<and> py_get v ''secret'' = Inr sec
                \<and> sec \<noteq> JStr (AGENT_SECRET cfg))"
  shows "ws_agent_handshake loads cfg st w s (RecvText txt) = (st, [Accept w, Close w 4001], Exited)
       \<and> agent_connections (fst (ws_agent_handshake loads cfg st w s (RecvText txt)))
           = agent_connections st"
proof -
  from assms have "\<not> handshake_ok loads cfg (RecvText txt)"
    by (auto simp: handshake_ok_def)
  then show ?thesis by (simp add: ws_agent_handshake_def)
qed

text \<open>Scenario A: the secret \<open>bad\<close> against the default settings.\<close>

theorem bad_handshake_rejected_witness:
  \<open>loads_ex ''{"secret":"bad"}'' = Some (JObj [(''secret'', JStr ''bad'')])
   \<and> py_get (JObj [(''secret'', JStr ''bad'')]) ''secret'' = Inr (JStr ''bad'')
   \<and> JStr ''bad'' \<noteq> JStr (AGENT_SECRET default_settings)
   \<and> ws_agent_handshake loads_ex default_settings init_manager 10 1 (RecvText ''{"secret":"bad"}'')
       = (init_manager, [Accept 10, Close 10 4001], Exited)
   \<and> agent_connections
        (fst (ws_agent_handshake loads_ex default_settings init_manager 10 1
                (RecvText ''{"secret":"bad"}''))) 1 = None\<close>
proof -
  have l: \<open>loads_ex ''{"secret":"bad"}'' = Some (JObj [(''secret'', JStr ''bad'')])\<close>
    by (simp add: loads_ex_def)
  have g: "py_get (JObj [(''secret'', JStr ''bad'')]) ''secret'' = Inr (JStr ''bad'')"
    by simp
  have n: "JStr ''bad'' \<noteq> JStr (AGENT_SECRET default_settings)"
    by (simp add: default_settings_def)
  from l g n have h:
    \<open>loads_ex ''{"secret":"bad"}'' = None
     \<or> (\<exists>v. loads_ex ''{"secret":"bad"}'' = Some v \<and> py_get v ''secret'' = Inl AttributeError)
     \<or> (\<exists>v sec. loads_ex ''{"secret":"bad"}'' = Some v \<and> py_get v ''secret'' = Inr sec
            \<and> sec \<noteq> JStr (AGENT_SECRET default_settings))\<close>
    by blast
  show ?thesis
    using bad_handshake_rejected
        [of loads_ex \<open>''{"secret":"bad"}''\<close> default_settings init_manager 10 1, OF h] l g n
    by (simp add: init_manager_def)
qed

text \<open>
  C3 (as the specification states it) fails. The settings of the hub default to the secret
  \<open>nexusctrl-agent-secret\<close>, so the handshake with \<open>dev-secret-key-change-me\<close> is closed
  with code 4001 and no agent is registered. On a hub configured with that secret the
  agent is admitted, but the hub decodes each telemetry text and \<open>send_json\<close> serialises
  the value again: the text with a blank after the colon reaches viewer 3 without the
  blank, and an empty text or a text that is not JSON reaches no viewer.
\<close>

theorem dev_secret_rejected_and_payload_reencoded:
  \<open>snd (ws_agent_handshake loads_ex default_settings one_viewer 10 1
          (RecvText ''{"secret":"dev-secret-key-change-me"}''))
     = ([Accept 10, Close 10 4001], Exited)
   \<and> agent_connections
        (fst (ws_agent_handshake loads_ex default_settings one_viewer 10 1
                (RecvText ''{"secret":"dev-secret-key-change-me"}''))) 1 = None
   \<and> fst (ws_agent_handshake loads_ex dev_settings one_viewer 10 1
             (RecvText ''{"secret":"dev-secret-key-change-me"}'')) = admit_agent one_viewer 1 10
   \<and> received send_json_ex 3
        (fst (snd (ws_agent_recv loads_ex never_fails (admit_agent one_viewer 1 10) 1
                     (RecvText ''{"cpu": 12.3}'')))) = [''{"cpu":12.3}'']
   \<and> ''{"cpu":12.3}'' \<noteq> ''{"cpu": 12.3}''
   \<and> received send_json_ex 3
        (fst (snd (ws_agent_recv loads_ex never_fails (admit_agent one_viewer 1 10) 1
                     (RecvText [])))) = []
   \<and> received send_json_ex 3
        (fst (snd (ws_agent_recv loads_ex never_fails (admit_agent one_viewer 1 10) 1
                     (RecvText ''cpu=12.3'')))) = []\<close>
  by (simp add: ws_agent_handshake_def handshake_ok_def loads_ex_def default_settings_def
      dev_settings_def one_viewer_def connect_client_def init_manager_def ws_agent_recv_def
      broadcast_to_clients_def admit_agent_def never_fails_def outcome_def send_json_ex_def
      disconnect_agent_def)

text \<open>
  C3 (as the code has it). A handshake whose secret equals the configured \<open>AGENT_SECRET\<close>
  is admitted and registers the socket as agent; a later non-empty telemetry text that
  decodes is then delivered to the one viewer of the same server id as the serialisation
  of its decoded value by \<open>send_json\<close>, which is that exact text when the text already
  is this serialisation.
\<close>

theorem configured_secret_admits_and_relays:
  assumes "loads hs = Some v" and "py_get v ''secret'' = Inr (JStr (AGENT_SECRET cfg))"
    and "viewers st s = [viewer]" and "\<not> fails viewer"
    and "payload \<noteq> []" and "loads payload = Some j"
  shows "ws_agent_handshake loads cfg st a s (RecvText hs) = (admit_agent st s a, [Accept a], Continue)
       \<and> agent_connections (admit_agent st s a) s = Some a
       \<and> ws_agent_recv loads fails (admit_agent st s a) s (RecvText payload)
           = (admit_agent st s a, [SendJson viewer j Delivered], Continue)
       \<and> received encode viewer
            (fst (snd (ws_agent_recv loads fails (admit_agent st s a) s (RecvText payload))))
           = [encode j]
       \<and> (encode j = payload \<longrightarrow>
            received encode viewer
              (fst (snd (ws_agent_recv loads fails (admit_agent st s a) s (RecvText payload))))
             = [payload])"
proof -
  have "handshake_ok loads cfg (RecvText hs)"
    using assms(1,2) by (simp add: handshake_ok_def)
  then have hs: "ws_agent_handshake loads cfg st a s (RecvText hs)
                   = (admit_agent st s a, [Accept a], Continue)"
    by (simp add: ws_agent_handshake_def)
  have reg: "agent_connections (admit_agent st s a) s = Some a"
    by (simp add: admit_agent_def)
  have v: "viewers (admit_agent st s a) s = [viewer]"
    using assms(3) by (simp add: viewers_admit_agent)
  then have "\<forall>w \<in> set (viewers (admit_agent st s a) s). \<not> fails w"
    using assms(4) by simp
  from broadcast_no_dead [OF this, of j] v
  have "broadcast_to_clients fails (admit_agent st s a) s j
          = (admit_agent st s a, [SendJson viewer j Delivered])"
    by simp
  then have recv: "ws_agent_recv loads fails (admit_agent st s a) s (RecvText payload)
               = (admit_agent st s a, [SendJson viewer j Delivered], Continue)"
    using assms(5,6) by (simp add: ws_agent_recv_def)
  then have got: "received encode viewer
            (fst (snd (ws_agent_recv loads fails (admit_agent st s a) s (RecvText payload))))
           = [encode j]"
    by simp
  from hs reg recv got show ?thesis by simp
qed

text \<open>Scenario B on a hub configured with the secret of the agent.\<close>

theorem configured_secret_admits_and_relays_witness:
  \<open>loads_ex ''{"secret":"dev-secret-key-change-me"}''
     = Some (JObj [(''secret'', JStr ''dev-secret-key-change-me'')])
   \<and> py_get (JObj [(''secret'', JStr ''dev-secret-key-change-me'')]) ''secret''
       = Inr (JStr (AGENT_SECRET dev_settings))
   \<and> viewers one_viewer 1 = [3] \<and> \<not> never_fails 3 \<and> ''{"cpu":12.3}'' \<noteq> []
   \<and> loads_ex ''{"cpu":12.3}'' = Some (JObj [(''cpu'', JFloat (123 / 10))])
   \<and> send_json_ex (JObj [(''cpu'', JFloat (123 / 10))]) = ''{"cpu":12.3}''
   \<and> ws_agent_handshake loads_ex dev_settings one_viewer 10 1
        (RecvText ''{"secret":"dev-secret-key-change-me"}'')
       = (admit_agent one_viewer 1 10, [Accept 10], Continue)
   \<and> ws_agent_recv loads_ex never_fails (admit_agent one_viewer 1 10) 1 (RecvText ''{"cpu":12.3}'')
       = (admit_agent one_viewer 1 10,
          [SendJson 3 (JObj [(''cpu'', JFloat (123 / 10))]) Delivered], Continue)
   \<and> received send_json_ex 3
        (fst (snd (ws_agent_recv loads_ex never_fails (admit_agent one_viewer 1 10) 1
                     (RecvText ''{"cpu":12.3}'')))) = [''{"cpu":12.3}'']\<close>
proof -
  have h1: \<open>loads_ex ''{"secret":"dev-secret-key-change-me"}''
             = Some (JObj [(''secret'', JStr ''dev-secret-key-change-me'')])\<close>
    by (simp add: loads_ex_def)
  have h2: "py_get (JObj [(''secret'', JStr ''dev-secret-key-change-me'')]) ''secret''
             = Inr (JStr (AGENT_SECRET dev_settings))"
    by (simp add: dev_settings_def)
  have h3: "viewers one_viewer 1 = [3]"
    by (simp add: one_viewer_def viewers_def connect_client_def init_manager_def)
  have h4: "\<not> never_fails 3"
    by (simp add: never_fails_def)
  have h5: \<open>''{"cpu":12.3}'' \<noteq> []\<close>
    by simp
  have h6: \<open>loads_ex ''{"cpu":12.3}'' = Some (JObj [(''cpu'', JFloat (123 / 10))])\<close>
    by (simp add: loads_ex_def)
  have e: \<open>send_json_ex (JObj [(''cpu'', JFloat (123 / 10))]) = ''{"cpu":12.3}''\<close>
    by (simp add: send_json_ex_def)
  show ?thesis
    using configured_secret_admits_and_relays
        [where loads = loads_ex and hs = \<open>''{"secret":"dev-secret-key-change-me"}''\<close>
           and cfg = dev_settings and st = one_viewer and s = 1 and fails = never_fails
           and payload = \<open>''{"cpu":12.3}''\<close> and a = 10 and encode = send_json_ex,
         OF h1 h2 h3 h4 h5 h6]
        h1 h2 h3 h4 h6 e
    by simp
qed

subsection \<open>Relaying a viewer's message to the agent\<close>

text \<open>
  C6 (as the code has it). A non-empty payload that decodes is sent to the registered agent
  as \<open>dumps\<close> of its decoded value; without an agent nothing is sent, nothing is raised and
  the registry is unchanged. An empty payload is skipped. A payload that does not decode is
  not forwarded: \<open>JSONDecodeError\<close> leaves the loop and the viewer is removed.
\<close>

theorem relay_forwards_reencoded_json:
  "(p \<noteq> [] \<and> loads p = Some msg \<and> agent_connections st s = Some a \<and> \<not> fails a \<longrightarrow>
      relay_to_agent loads dumps fails st s p = ([SendText a (dumps msg) Delivered], None))
   \<and> ((p = [] \<or> loads p \<noteq> None) \<and> agent_connections st s = None \<longrightarrow>
      relay_to_agent loads dumps fails st s p = ([], None)
      \<and> ws_metrics_recv loads dumps fails st w s (RecvText p) = (st, [], Continue))
   \<and> (p = [] \<longrightarrow> relay_to_agent loads dumps fails st s p = ([], None))
   \<and> (p \<noteq> [] \<and> loads p = None \<longrightarrow>
      relay_to_agent loads dumps fails st s p = ([], Some JSONDecodeError)
      \<and> ws_metrics_recv loads dumps fails st w s (RecvText p) = (disconnect_client st w s, [], Exited))"
  by (auto simp: relay_to_agent_def ws_metrics_recv_def outcome_def)

text \<open>The kill command with and without agent 20, the empty text, and a text that is not JSON.\<close>

theorem relay_forwards_reencoded_json_witness:
  \<open>relay_to_agent loads_ex dumps_ex never_fails (admit_agent one_viewer 1 20) 1
       ''{"action":"kill","pid":4242}''
     = ([SendText 20 ''{"action": "kill", "pid": 4242}'' Delivered], None)
   \<and> ws_metrics_recv loads_ex dumps_ex never_fails one_viewer 3 1
         (RecvText ''{"action":"kill","pid":4242}'') = (one_viewer, [], Continue)
   \<and> relay_to_agent loads_ex dumps_ex never_fails (admit_agent one_viewer 1 20) 1 [] = ([], None)
   \<and> ws_metrics_recv loads_ex dumps_ex never_fails (admit_agent one_viewer 1 20) 3 1
         (RecvText ''kill 4242'')
       = (disconnect_client (admit_agent one_viewer 1 20) 3 1, [], Exited)\<close>
proof -
  have l: \<open>loads_ex ''{"action":"kill","pid":4242}''
            = Some (JObj [(''action'', JStr ''kill''), (''pid'', JInt 4242)])\<close>
    by (simp add: loads_ex_def)
  have n: \<open>loads_ex ''kill 4242'' = None\<close>
    by (simp add: loads_ex_def)
  have a: "agent_connections (admit_agent one_viewer 1 20) 1 = Some 20"
    by (simp add: admit_agent_def)
  have b: "agent_connections one_viewer 1 = None"
    by (simp add: one_viewer_def connect_client_def init_manager_def)
  have d: \<open>dumps_ex (JObj [(''action'', JStr ''kill''), (''pid'', JInt 4242)])
            = ''{"action": "kill", "pid": 4242}''\<close>
    by (simp add: dumps_ex_def)
  show ?thesis
    using relay_forwards_reencoded_json
        [where p = \<open>''{"action":"kill","pid":4242}''\<close> and loads = loads_ex and dumps = dumps_ex
           and msg = "JObj [(''action'', JStr ''kill''), (''pid'', JInt 4242)]"
           and st = "admit_agent one_viewer 1 20" and s = 1 and a = 20 and fails = never_fails]
      relay_forwards_reencoded_json
        [where p = \<open>''{"action":"kill","pid":4242}''\<close> and loads = loads_ex and dumps = dumps_ex
           and st = one_viewer and s = 1 and w = 3 and fails = never_fails]
      relay_forwards_reencoded_json
        [where p = "[]" and loads = loads_ex and dumps = dumps_ex
           and st = "admit_agent one_viewer 1 20" and s = 1 and fails = never_fails]
      relay_forwards_reencoded_json
        [where p = \<open>''kill 4242''\<close> and loads = loads_ex and dumps = dumps_ex
           and st = "admit_agent one_viewer 1 20" and s = 1 and w = 3 and fails = never_fails]
      l n a b d
    by (simp add: never_fails_def)
qed

text \<open>
  C6 (as the specification states it) fails: with agent 20 registered, the payload
  \<open>kill 4242\<close> is not forwarded but raises \<open>JSONDecodeError\<close>, and the kill command is not
  forwarded as the text received; without an agent, \<open>kill 4242\<close> still raises and the
  viewer that sent it is removed from the registry.
\<close>

theorem relay_is_not_verbatim:
  \<open>agent_connections (admit_agent one_viewer 1 20) 1 = Some 20
   \<and> relay_to_agent loads_ex dumps_ex never_fails (admit_agent one_viewer 1 20) 1 ''kill 4242''
       = ([], Some JSONDecodeError)
   \<and> relay_to_agent loads_ex dumps_ex never_fails (admit_agent one_viewer 1 20) 1
         ''{"action":"kill","pid":4242}''
       \<noteq> ([SendText 20 ''{"action":"kill","pid":4242}'' Delivered], None)
   \<and> agent_connections one_viewer 1 = None
   \<and> viewers one_viewer 1 = [3]
   \<and> viewers (fst (ws_metrics_recv loads_ex dumps_ex never_fails one_viewer 3 1
                      (RecvText ''kill 4242''))) 1 = []\<close>
  by (simp add: relay_to_agent_def ws_metrics_recv_def loads_ex_def dumps_ex_def never_fails_def
      outcome_def admit_agent_def one_viewer_def connect_client_def disconnect_client_def
      init_manager_def viewers_def Dlist.null_def)

section \<open>Properties of the agent\<close>

subsection \<open>The process list\<close>

lemma entry_reports:
  "reports_usage i \<Longrightarrow> \<exists>e. entry i = Inr e"
  by (auto simp: reports_usage_def entry_def py_round_opt_def)

lemma process_loop_Inr:
  "process_loop infos procs = Inr ps \<Longrightarrow> ps = procs @ entries infos"
proof (induction infos arbitrary: procs)
  case Nil
  then show ?case by simp
next
  case (Cons i infos)
  show ?case
  proof (cases "entry i")
    case (Inl x)
    with Cons.prems have "process_loop infos procs = Inr ps"
      by (simp split: if_splits)
    from Cons.IH [OF this] Inl show ?thesis by simp
  next
    case (Inr e)
    with Cons.prems have "process_loop infos (procs @ [e]) = Inr ps" by simp
    from Cons.IH [OF this] Inr show ?thesis by simp
  qed
qed

lemma process_loop_reports:
  "\<forall>i \<in> set infos. reports_usage i
     \<Longrightarrow> process_loop infos procs = Inr (procs @ entries infos)"
proof (induction infos arbitrary: procs)
  case Nil
  then show ?case by simp
next
  case (Cons i infos)
  from Cons.prems have r: "reports_usage i" and rest: "\<forall>i \<in> set infos. reports_usage i"
    by simp_all
  from entry_reports [OF r] obtain e where e: "entry i = Inr e" by blast
  with Cons.IH [OF rest, of "procs @ [e]"] show ?case by simp
qed

lemma py_sorted_desc_sorted:
  "sorted_wrt (\<lambda>a b. key b \<le> key a) (py_sorted_desc key xs)"
proof -
  have "sorted (map key (sort_key key (rev xs)))"
    by (rule sorted_sort_key)
  then have "sorted_wrt (\<lambda>a b. key a \<le> key b) (sort_key key (rev xs))"
    by (simp only: sorted_wrt_map)
  then show ?thesis
    by (simp only: py_sorted_desc_def sorted_wrt_rev)
qed

lemma get_processes_reports:
  assumes "\<forall>i \<in> set infos. reports_usage i"
  shows "get_processes infos = Inr (take 20 (py_sorted_desc proc_cpu (entries infos)))"
  using process_loop_reports [OF assms, of "[]"] by (simp add: get_processes_def)

text \<open>
  C9, at the enumeration of the processes 8, 4 and 7 where the cpu and memory percent of
  process 4 are denied. \<open>round(None, 1)\<close> raises \<open>TypeError\<close>, which the \<open>except\<close> clause
  does not name: \<open>get_processes\<close> raises instead of skipping the process, and so does
  \<open>collect_metrics\<close>.
\<close>

theorem access_denied_process_raises:
  "pinfo_cpu_percent denied = None
   \<and> entry denied = Inl TypeError
   \<and> \<not> caught TypeError
   \<and> get_processes [idle, denied, busy] = Inl TypeError
   \<and> collect_metrics (locked_env\<lparr>process_iter := [idle, denied, busy]\<rparr>) False = Inl TypeError"
  by (simp add: denied_def idle_def busy_def entry_def py_round_opt_def caught_def
      get_processes_def collect_metrics_def locked_env_def)


subsection \<open>The snapshot\<close>

lemma capture_screen_failed:
  "grab_jpeg_base64 env = Inl msg \<Longrightarrow>
     ss_data (capture_screen env) = None
     \<and> (ss_status (capture_screen env) = ''locked'' \<or> ss_status (capture_screen env) = ''error'')"
  by (simp add: capture_screen_def Let_def)

text \<open>
  C2 (as the code has it). When the CPU, RAM and network reads succeed and every
  enumerated process reports its cpu and memory percent, \<open>collect_metrics\<close> returns a
  complete snapshot, whose process list is sorted by \<open>cpu\<close> descending and has at most 20
  entries; a failing screen capture gives a null \<open>screenshot\<close> with status \<open>locked\<close> or
  \<open>error\<close>. A failing CPU, RAM or network read is not caught: its exception leaves
  \<open>collect_metrics\<close>.
\<close>

theorem collect_metrics_degrades_screen_failures:
  "(cpu_percent env = Inr c \<and> virtual_memory_percent env = Inr r
      \<and> net_io_counters env = Inr (rx, tx)
      \<and> (\<forall>i \<in> set (process_iter env). reports_usage i) \<longrightarrow>
      (\<exists>m. collect_metrics env include_screenshot = Inr m
          \<and> m_cpu m = c \<and> m_ram m = r \<and> m_status m = ''online''
          \<and> m_processes m = take 20 (py_sorted_desc proc_cpu (entries (process_iter env)))
          \<and> sorted_wrt (\<lambda>a b. proc_cpu b \<le> proc_cpu a) (m_processes m)
          \<and> length (m_processes m) \<le> 20
          \<and> m_screenshot m = (if include_screenshot then Some (capture_screen env) else None)))
   \<and> (grab_jpeg_base64 env = Inl msg \<longrightarrow>
        ss_data (capture_screen env) = None
        \<and> (ss_status (capture_screen env) = ''locked'' \<or> ss_status (capture_screen env) = ''error''))
   \<and> (cpu_percent env = Inl ec \<longrightarrow> collect_metrics env include_screenshot = Inl ec)
   \<and> (cpu_percent env = Inr c \<and> virtual_memory_percent env = Inl er \<longrightarrow>
        collect_metrics env include_screenshot = Inl er)
   \<and> (cpu_percent env = Inr c \<and> virtual_memory_percent env = Inr r \<and> net_io_counters env = Inl en \<longrightarrow>
        collect_metrics env include_screenshot = Inl en)"
proof (intro conjI impI)
  assume a: "cpu_percent env = Inr c \<and> virtual_memory_percent env = Inr r
      \<and> net_io_counters env = Inr (rx, tx)
      \<and> (\<forall>i \<in> set (process_iter env). reports_usage i)"
  let ?ps = "take 20 (py_sorted_desc proc_cpu (entries (process_iter env)))"
  from a have "\<forall>i \<in> set (process_iter env). reports_usage i" by simp
  from get_processes_reports [OF this]
  have g: "get_processes (process_iter env) = Inr ?ps" .
  have srt: "sorted_wrt (\<lambda>a b. proc_cpu b \<le> proc_cpu a) ?ps"
    by (rule sorted_wrt_take) (rule py_sorted_desc_sorted)
  have len: "length ?ps \<le> 20" by simp
  from a g srt len
  show "\<exists>m. collect_metrics env include_screenshot = Inr m
          \<and> m_cpu m = c \<and> m_ram m = r \<and> m_status m = ''online''
          \<and> m_processes m = ?ps
          \<and> sorted_wrt (\<lambda>a b. proc_cpu b \<le> proc_cpu a) (m_processes m)
          \<and> length (m_processes m) \<le> 20
          \<and> m_screenshot m = (if include_screenshot then Some (capture_screen env) else None)"
    by (simp add: collect_metrics_def)
next
  assume "grab_jpeg_base64 env = Inl msg"
  from capture_screen_failed [OF this]
  show "ss_data (capture_screen env) = None"
    and "ss_status (capture_screen env) = ''locked'' \<or> ss_status (capture_screen env) = ''error''"
    by simp_all
next
  assume "cpu_percent env = Inl ec"
  then show "collect_metrics env include_screenshot = Inl ec"
    by (simp add: collect_metrics_def)
next
  assume "cpu_percent env = Inr c \<and> virtual_memory_percent env = Inl er"
  then show "collect_metrics env include_screenshot = Inl er"
    by (simp add: collect_metrics_def)
next
  assume "cpu_percent env = Inr c \<and> virtual_memory_percent env = Inr r \<and> net_io_counters env = Inl en"
  then show "collect_metrics env include_screenshot = Inl en"
    by (simp add: collect_metrics_def)
qed

text \<open>
  C2 (as the specification states it) fails: when the CPU read raises, \<open>collect_metrics\<close>
  raises the same exception and returns no snapshot.
\<close>

theorem cpu_read_failure_aborts_snapshot:
  "cpu_percent cpu_fails_env = Inl OSError \<and> collect_metrics cpu_fails_env True = Inl OSError"
  by (simp add: cpu_fails_env_def collect_metrics_def)

text \<open>A host with a locked screen; and the same host with a failing CPU read.\<close>

theorem collect_metrics_degrades_screen_failures_witness:
  "(\<exists>m. collect_metrics locked_env True = Inr m \<and> m_cpu m = 12 \<and> m_ram m = 40
        \<and> m_status m = ''online'' \<and> map proc_pid (m_processes m) = [7, 8]
        \<and> map proc_cpu (m_processes m) = [9, 1]
        \<and> m_screenshot m =
            Some \<lparr>ss_data = None, ss_status = ''locked'',
                  ss_error = Some ''RDP Session Disconnected (Desktop Locked)''\<rparr>)
   \<and> collect_metrics cpu_fails_env True = Inl OSError"
proof -
  have f: "cpu_percent locked_env = Inr 12 \<and> virtual_memory_percent locked_env = Inr 40
           \<and> net_io_counters locked_env = Inr (2097152, 1048576)
           \<and> (\<forall>i \<in> set (process_iter locked_env). reports_usage i)"
    by (simp add: locked_env_def reports_usage_def idle_def busy_def)
  have p: "map proc_pid (take 20 (py_sorted_desc proc_cpu (entries (process_iter locked_env)))) = [7, 8]"
    by code_simp
  have q: "map proc_cpu (take 20 (py_sorted_desc proc_cpu (entries (process_iter locked_env)))) = [9, 1]"
    by code_simp
  have g: "capture_screen locked_env =
             \<lparr>ss_data = None, ss_status = ''locked'',
              ss_error = Some ''RDP Session Disconnected (Desktop Locked)''\<rparr>"
    by code_simp
  have x: "cpu_percent cpu_fails_env = Inl OSError"
    by (simp add: cpu_fails_env_def)
  from collect_metrics_degrades_screen_failures
         [where env = locked_env and c = 12 and r = 40 and rx = 2097152 and tx = 1048576
            and include_screenshot = True] f
  obtain m where "collect_metrics locked_env True = Inr m" and "m_cpu m = 12" and "m_ram m = 40"
    and "m_status m = ''online''"
    and "m_processes m = take 20 (py_sorted_desc proc_cpu (entries (process_iter locked_env)))"
    and "m_screenshot m = (if True then Some (capture_screen locked_env) else None)"
    by blast
  then have "\<exists>m. collect_metrics locked_env True = Inr m \<and> m_cpu m = 12 \<and> m_ram m = 40
        \<and> m_status m = ''online'' \<and> map proc_pid (m_processes m) = [7, 8]
        \<and> map proc_cpu (m_processes m) = [9, 1]
        \<and> m_screenshot m =
            Some \<lparr>ss_data = None, ss_status = ''locked'',
                  ss_error = Some ''RDP Session Disconnected (Desktop Locked)''\<rparr>"
    using p q g by simp
  moreover from collect_metrics_degrades_screen_failures
         [where env = cpu_fails_env and ec = OSError and include_screenshot = True] x
  have "collect_metrics cpu_fails_env True = Inl OSError"
    by blast
  ultimately show ?thesis by (simp only: simp_thms)
qed

subsection \<open>The screenshot cadence\<close>

lemma collect_metrics_screenshot:
  "collect_metrics env b = Inr m
     \<Longrightarrow> m_screenshot m = (if b then Some (capture_screen env) else None)"
  by (auto simp: collect_metrics_def split: sum.splits prod.splits)

lemma tick_completes_collect:
  "tick_completes t \<Longrightarrow> send_ok t \<and> (\<exists>m. collect_metrics (sys t) b = Inr m)"
  by (auto simp: tick_completes_def collect_metrics_def split: sum.splits prod.splits)

lemma capture_screen_data: "(ss_data (capture_screen env) \<noteq> None) = grab_succeeds env"
  by (simp add: capture_screen_def grab_succeeds_def Let_def split: sum.splits)

lemma ticks_0_5: "{i::nat. i < 10 \<and> i mod 5 = 0} = {0, 5}"
proof -
  have "(i < 10 \<and> i mod 5 = 0) = (i = 0 \<or> i = 5)" for i :: nat
    by presburger
  then show ?thesis by auto
qed


lemma publish_loop_complete:
  "\<forall>t \<in> set ts. tick_completes t \<Longrightarrow>
     \<exists>out. publish_loop ts c = (out, Running (c + length ts)) \<and> length out = length ts
       \<and> (\<forall>i < length ts. m_screenshot (out ! i) =
             (if take_ss (c + i) then Some (capture_screen (sys (ts ! i))) else None))"
proof (induction ts arbitrary: c)
  case Nil
  then show ?case by simp
next
  case (Cons t ts)
  from Cons.prems have tc: "tick_completes t" and rest: "\<forall>t \<in> set ts. tick_completes t"
    by simp_all
  from tick_completes_collect [OF tc, of "take_ss c"]
  obtain m where ok: "send_ok t" and m: "collect_metrics (sys t) (take_ss c) = Inr m"
    by blast
  from collect_metrics_screenshot [OF m]
  have ms: "m_screenshot m = (if take_ss c then Some (capture_screen (sys t)) else None)" .
  from Cons.IH [OF rest, of "c + 1"]
  obtain out where run: "publish_loop ts (c + 1) = (out, Running (c + 1 + length ts))"
    and len: "length out = length ts"
    and shots: "\<forall>i < length ts. m_screenshot (out ! i) =
                  (if take_ss (c + 1 + i) then Some (capture_screen (sys (ts ! i))) else None)"
    by blast
  have "publish_loop (t # ts) c = (m # out, Running (c + length (t # ts)))"
    using ok m run by simp
  moreover have "length (m # out) = length (t # ts)"
    using len by simp
  moreover have "m_screenshot ((m # out) ! i) =
                   (if take_ss (c + i) then Some (capture_screen (sys ((t # ts) ! i))) else None)"
    if "i < length (t # ts)" for i
  proof (cases i)
    case 0
    with ms show ?thesis by simp
  next
    case (Suc j)
    with that have "j < length ts" by simp
    with shots Suc show ?thesis by simp
  qed
  ultimately show ?case by blast
qed

text \<open>
  C8 (as the code has it). In a run of the publish loop over the ticks 0..9 in which every
  tick is sampled and sent, a screenshot is requested exactly on the ticks 0 and 5: the
  snapshots of exactly these two ticks (20 percent) carry the screenshot keys, and the
  \<open>screenshot\<close> value of a snapshot is not null exactly when the tick is 0 or 5 and the
  capture of that tick succeeded.
\<close>

theorem screenshot_cadence:
  assumes "length ts = 10" and "\<forall>t \<in> set ts. tick_completes t"
  shows "\<exists>out. publish_loop ts 0 = (out, Running 10) \<and> length out = 10
           \<and> {i. i < 10 \<and> has_screenshot_keys (out ! i)} = {0, 5}
           \<and> length (filter has_screenshot_keys out) = 2
           \<and> (\<forall>i < 10. has_image (out ! i) = ((i = 0 \<or> i = 5) \<and> grab_succeeds (sys (ts ! i))))"
proof -
  from publish_loop_complete [OF assms(2), of 0] assms(1)
  obtain out where run: "publish_loop ts 0 = (out, Running 10)" and len: "length out = 10"
    and shots: "\<forall>i < 10. m_screenshot (out ! i) =
                  (if take_ss i then Some (capture_screen (sys (ts ! i))) else None)"
    by auto
  have keys: "has_screenshot_keys (out ! i) = (i mod 5 = 0)" if "i < 10" for i
    using shots that by (simp add: has_screenshot_keys_def take_ss_def)
  then have "{i. i < 10 \<and> has_screenshot_keys (out ! i)} = {i. i < 10 \<and> i mod 5 = 0}"
    by auto
  then have set05: "{i. i < 10 \<and> has_screenshot_keys (out ! i)} = {0, 5}"
    by (simp only: ticks_0_5)
  have "length (filter has_screenshot_keys out) = card {i. i < length out \<and> has_screenshot_keys (out ! i)}"
    by (rule length_filter_conv_card)
  then have count: "length (filter has_screenshot_keys out) = 2"
    by (simp add: len set05)
  have img: "has_image (out ! i) = ((i = 0 \<or> i = 5) \<and> grab_succeeds (sys (ts ! i)))"
    if "i < 10" for i
  proof -
    have "(i mod 5 = 0) = (i = 0 \<or> i = 5)" using that by presburger
    with shots that show ?thesis
      by (simp add: has_image_def take_ss_def capture_screen_data [symmetric])
  qed
  from run len set05 count img show ?thesis by blast
qed


text \<open>Ten ticks on a host whose screen can be grabbed.\<close>

theorem screenshot_cadence_witness:
  "length (replicate 10 unlocked_tick) = 10 \<and> tick_completes unlocked_tick
   \<and> snd (publish_loop (replicate 10 unlocked_tick) 0) = Running 10
   \<and> length (filter has_screenshot_keys (fst (publish_loop (replicate 10 unlocked_tick) 0))) = 2
   \<and> map has_image (fst (publish_loop (replicate 10 unlocked_tick) 0))
       = [True, False, False, False, False, True, False, False, False, False]"
proof -
  have h: "length (replicate 10 unlocked_tick) = 10"
    by simp
  have tc: "tick_completes unlocked_tick"
    by code_simp
  then have a: "\<forall>t \<in> set (replicate 10 unlocked_tick). tick_completes t"
    by simp
  from screenshot_cadence [OF h a]
  obtain out where run: "publish_loop (replicate 10 unlocked_tick) 0 = (out, Running 10)"
    and count: "length (filter has_screenshot_keys out) = 2"
    by blast
  have imgs: "map has_image (fst (publish_loop (replicate 10 unlocked_tick) 0))
               = [True, False, False, False, False, True, False, False, False, False]"
    by code_simp
  from h tc run count imgs show ?thesis by simp
qed

text \<open>
  C8 (as the specification states it) fails: on a host whose screen is locked the ten ticks
  are sent, the ticks 0 and 5 carry the screenshot keys, and no snapshot has a
  \<open>screenshot\<close> value that is not null.
\<close>

theorem locked_screen_run_has_no_image:
  "length (fst (publish_loop (replicate 10 locked_tick) 0)) = 10
   \<and> snd (publish_loop (replicate 10 locked_tick) 0) = Running 10
   \<and> map has_screenshot_keys (fst (publish_loop (replicate 10 locked_tick) 0))
       = [True, False, False, False, False, True, False, False, False, False]
   \<and> length (filter has_image (fst (publish_loop (replicate 10 locked_tick) 0))) = 0"
  by code_simp

subsection \<open>Kill commands without a pid\<close>

lemma handle_command_kill:
  assumes "loads message = Some (JObj kvs)" and "map_of kvs ''action'' = Some (JStr ''kill'')"
    and "py_get (JObj kvs) ''pid'' = Inr v"
  shows "\<not> truthy v \<Longrightarrow> handle_command loads api os message = (os, [])"
    and "truthy v \<Longrightarrow> CallProcess v \<in> set (snd (handle_command loads api os message))"
  using assms
  by (auto simp: handle_command_def split: sum.splits option.splits)

text \<open>
  C10. A \<open>kill\<close> command whose \<open>pid\<close> is missing, null or 0 is ignored by the command
  executor: the pid is not truthy, so neither \<open>psutil.Process\<close> nor \<open>terminate\<close> is called,
  nothing is printed, the operating system is unchanged, and the loop goes on with the
  messages that follow.
\<close>

theorem kill_without_pid_is_ignored:
  assumes "loads message = Some (JObj kvs)" and "map_of kvs ''action'' = Some (JStr ''kill'')"
    and "map_of kvs ''pid'' = None \<or> map_of kvs ''pid'' = Some JNull
         \<or> map_of kvs ''pid'' = Some (JInt 0)"
  shows "handle_command loads api os message = (os, [])
       \<and> \<not> list_ex attempts_kill (snd (handle_command loads api os message))
       \<and> handle_commands loads api os (message # rest) = handle_commands loads api os rest"
proof -
  from assms(3) obtain v where v: "py_get (JObj kvs) ''pid'' = Inr v" and f: "\<not> truthy v"
    by auto
  have h: "handle_command loads api os message = (os, [])"
    using assms(1,2) v f by (rule handle_command_kill(1))
  then show ?thesis by (simp add: case_prod_beta)
qed

text \<open>A kill of pid 0 followed by a kill of the live pid 4242.\<close>

theorem kill_without_pid_is_ignored_witness:
  \<open>loads_ex ''{"action":"kill","pid":0}'' = Some (JObj [(''action'', JStr ''kill''), (''pid'', JInt 0)])
   \<and> handle_command loads_ex pids_api [4242] ''{"action":"kill","pid":0}'' = ([4242], [])
   \<and> handle_commands loads_ex pids_api [4242]
        [''{"action":"kill","pid":0}'', ''{"action":"kill","pid":4242}'']
       = ([], [PrintKill (JInt 4242), CallProcess (JInt 4242), CallTerminate 4242,
               PrintTerminated (JInt 4242)])\<close>
proof -
  have l: \<open>loads_ex ''{"action":"kill","pid":0}''
            = Some (JObj [(''action'', JStr ''kill''), (''pid'', JInt 0)])\<close>
    by (simp add: loads_ex_def)
  have a: "map_of [(''action'', JStr ''kill''), (''pid'', JInt 0)] ''action'' = Some (JStr ''kill'')"
    by simp
  have p: "map_of [(''action'', JStr ''kill''), (''pid'', JInt 0)] ''pid'' = None
           \<or> map_of [(''action'', JStr ''kill''), (''pid'', JInt 0)] ''pid'' = Some JNull
           \<or> map_of [(''action'', JStr ''kill''), (''pid'', JInt 0)] ''pid'' = Some (JInt 0)"
    by simp
  have k: \<open>handle_commands loads_ex pids_api [4242] [''{"action":"kill","pid":4242}'']
            = ([], [PrintKill (JInt 4242), CallProcess (JInt 4242), CallTerminate 4242,
                    PrintTerminated (JInt 4242)])\<close>
    by (simp add: handle_command_def loads_ex_def pids_api_def)
  show ?thesis
    using kill_without_pid_is_ignored
        [where loads = loads_ex and message = \<open>''{"action":"kill","pid":0}''\<close>
           and api = pids_api and os = "[4242]"
           and rest = \<open>[''{"action":"kill","pid":4242}'']\<close>, OF l a p]
      l k
    by (simp only: simp_thms)
qed

end
